theory Spec2Isabelle
  imports Main "HOL-Library.Finite_Map" "HOL-Library.Sublist" "HOL-Library.Word"
begin

section \<open>Python values used by \<^verbatim>\<open>PomodoroTimer.py\<close>\<close>

text \<open>
  The exceptions the modelled code can raise. \<open>KeyError\<close> carries the missing key.
  \<open>OSError\<close> stands for every failure of \<^verbatim>\<open>open\<close> (missing file, no permission).
\<close>

datatype py_error =
    KeyError string
  | ZeroDivisionError
  | TypeError
  | JSONDecodeError
  | ValueError
  | OSError

type_synonym 'a result = "py_error + 'a"

text \<open>
  What \<^verbatim>\<open>json.load\<close> returns and \<^verbatim>\<open>json.dump\<close> accepts: \<^verbatim>\<open>None\<close>, booleans, integers
  (unbounded), floats (kept as their 64 bits; no modelled code computes with one), strings,
  lists, and dictionaries with string keys. A dictionary is a finite map.
\<close>

datatype json =
    JNull
  | JBool bool
  | JInt int
  | JFloat "64 word"
  | JStr string
  | JList "json list"
  | JObj "(string, json) fmap"

text \<open>\<^verbatim>\<open>d[k]\<close> on a dictionary: the value, or \<^verbatim>\<open>KeyError\<close>.\<close>

definition getitem :: "(string, 'v) fmap \<Rightarrow> string \<Rightarrow> 'v result" where
  "getitem d k = (case fmlookup d k of None \<Rightarrow> Inl (KeyError k) | Some v \<Rightarrow> Inr v)"

text \<open>The timer configuration: a dictionary from parameter names to integers (minutes, counts).\<close>

type_synonym config = "(string, int) fmap"

text \<open>
  The values a session record holds, strings and integers, and the record itself: the
  dictionary \<^verbatim>\<open>complete_session\<close> builds, with the keys \<^verbatim>\<open>type\<close>, \<^verbatim>\<open>duration\<close>,
  \<^verbatim>\<open>completed_at\<close> and \<^verbatim>\<open>session_number\<close>.
\<close>

datatype py_value = PyStr string | PyInt int

type_synonym session_record = "(string, py_value) fmap"

section \<open>\<^verbatim>\<open>class BaseTimer\<close>\<close>

record base_timer =
  name :: string
  is_running :: bool
  total_sessions :: int
  current_time :: int

definition BaseTimer_init :: "string \<Rightarrow> base_timer" where
  "BaseTimer_init nm =
     \<lparr>name = nm, is_running = False, total_sessions = 0, current_time = 0\<rparr>"

definition get_total_sessions :: "'a base_timer_scheme \<Rightarrow> int" where
  "get_total_sessions self = total_sessions self"

definition is_timer_running :: "'a base_timer_scheme \<Rightarrow> bool" where
  "is_timer_running self = is_running self"

definition set_running_state :: "'a base_timer_scheme \<Rightarrow> bool \<Rightarrow> 'a base_timer_scheme" where
  "set_running_state self state = self\<lparr>is_running := state\<rparr>"

section \<open>\<^verbatim>\<open>class PomodoroTimer(BaseTimer)\<close>: the cyclic timer\<close>

text \<open>
  The fields of the class, after those of \<open>base_timer\<close>. The session type is a string,
  as in the source; nothing in the type keeps it inside \<open>session_types\<close>.
\<close>

record pomodoro_timer = base_timer +
  timer_config :: config
  completed_sessions :: "session_record list"
  session_types :: "string set"
  current_session_type :: string
  sessions_completed :: int
  remaining_time :: int

definition PomodoroTimer_init :: "int \<Rightarrow> int \<Rightarrow> int \<Rightarrow> pomodoro_timer" where
  "PomodoroTimer_init work_duration short_break long_break =
     base_timer.extend (BaseTimer_init ''Pomodoro Timer'')
       (pomodoro_timer.fields
          (fmap_of_list
             [(''work_duration'', work_duration),
              (''short_break'', short_break),
              (''long_break'', long_break),
              (''sessions_until_long_break'', 4)])
          []
          {''work'', ''short_break'', ''long_break''}
          ''work''
          0
          (work_duration * 60))"

definition get_timer_config :: "'a pomodoro_timer_scheme \<Rightarrow> config" where
  "get_timer_config self = timer_config self"

text \<open>
  \<^verbatim>\<open>update_config\<close>. The test \<^verbatim>\<open>new_config['work_duration'] <= 0 or new_config['short_break'] <= 0\<close>
  indexes the argument: an absent key raises \<^verbatim>\<open>KeyError\<close>, and \<^verbatim>\<open>or\<close> looks at
  \<^verbatim>\<open>short_break\<close> only when the work duration is positive. The result is what the call
  returns or raises, paired with the object as the call leaves it.
\<close>

definition update_config ::
  "'a pomodoro_timer_scheme \<Rightarrow> config \<Rightarrow> bool result \<times> 'a pomodoro_timer_scheme" where
  "update_config self new_config =
     (case getitem new_config ''work_duration'' of
        Inl e \<Rightarrow> (Inl e, self)
      | Inr w \<Rightarrow>
          if w \<le> 0 then (Inr False, self)
          else
            (case getitem new_config ''short_break'' of
               Inl e \<Rightarrow> (Inl e, self)
             | Inr s \<Rightarrow>
                 if s \<le> 0 then (Inr False, self)
                 else
                   (let self1 = self\<lparr>timer_config := timer_config self ++\<^sub>f new_config\<rparr>
                    in if \<not> is_running self1 then
                         (case getitem (timer_config self1) ''work_duration'' of
                            Inl e \<Rightarrow> (Inl e, self1)
                          | Inr w' \<Rightarrow> (Inr True, self1\<lparr>remaining_time := w' * 60\<rparr>))
                       else (Inr True, self1))))"

definition start_timer :: "'a pomodoro_timer_scheme \<Rightarrow> 'a pomodoro_timer_scheme" where
  "start_timer self = self\<lparr>is_running := True\<rparr>"

text \<open>
  \<^verbatim>\<open>get_next_session_type\<close> reads the object and changes nothing. Python's \<^verbatim>\<open>%\<close> raises
  on a zero divisor and otherwise takes the sign of the divisor, as \<open>mod\<close> on \<open>int\<close> does.
\<close>

definition get_next_session_type :: "'a pomodoro_timer_scheme \<Rightarrow> string result" where
  "get_next_session_type self =
     (if current_session_type self = ''work'' then
        (case getitem (timer_config self) ''sessions_until_long_break'' of
           Inl e \<Rightarrow> Inl e
         | Inr n \<Rightarrow>
             if n = 0 then Inl ZeroDivisionError
             else if (sessions_completed self + 1) mod n = 0 then Inr ''long_break''
             else Inr ''short_break'')
      else Inr ''work'')"

definition get_session_duration :: "'a pomodoro_timer_scheme \<Rightarrow> string \<Rightarrow> int result" where
  "get_session_duration self session_type =
     (if session_type = ''work'' then getitem (timer_config self) ''work_duration''
      else if session_type = ''short_break'' then getitem (timer_config self) ''short_break''
      else if session_type = ''long_break'' then getitem (timer_config self) ''long_break''
      else getitem (timer_config self) ''work_duration'')"

text \<open>
  \<^verbatim>\<open>complete_session\<close>, statement by statement; \<open>now\<close> is the text of
  \<^verbatim>\<open>datetime.now().strftime(...)\<close>. The next type is computed after the counters have been
  updated. An exception leaves the object as the statements before it made it.
\<close>

definition complete_session ::
  "'a pomodoro_timer_scheme \<Rightarrow> string \<Rightarrow> unit result \<times> 'a pomodoro_timer_scheme" where
  "complete_session self now =
     (case get_session_duration self (current_session_type self) of
        Inl e \<Rightarrow> (Inl e, self)
      | Inr d \<Rightarrow>
          (let session_record =
                 fmap_of_list
                   [(''type'', PyStr (current_session_type self)),
                    (''duration'', PyInt d),
                    (''completed_at'', PyStr now),
                    (''session_number'',
                       PyInt (if current_session_type self = ''work''
                             then sessions_completed self + 1
                             else sessions_completed self))];
               self1 = self\<lparr>completed_sessions := completed_sessions self @ [session_record]\<rparr>;
               self2 = (if current_session_type self1 = ''work''
                        then self1\<lparr>sessions_completed := sessions_completed self1 + 1,
                                   total_sessions := total_sessions self1 + 1\<rparr>
                        else self1)
           in case get_next_session_type self2 of
                Inl e \<Rightarrow> (Inl e, self2)
              | Inr t \<Rightarrow>
                  (let self3 = self2\<lparr>current_session_type := t\<rparr>
                   in case get_session_duration self3 (current_session_type self3) of
                        Inl e \<Rightarrow> (Inl e, self3)
                      | Inr d' \<Rightarrow> (Inr (), self3\<lparr>remaining_time := d' * 60\<rparr>))))"

definition get_current_session_info :: "'a pomodoro_timer_scheme \<Rightarrow> string \<times> int \<times> int" where
  "get_current_session_info self =
     (current_session_type self, remaining_time self, sessions_completed self)"

section \<open>\<^verbatim>\<open>class StudyTimer(PomodoroTimer)\<close>\<close>

record study_timer = pomodoro_timer +
  daily_goal_minutes :: int
  study_notes :: "string list"

definition StudyTimer_init :: "int \<Rightarrow> int \<Rightarrow> int \<Rightarrow> study_timer" where
  "StudyTimer_init work_duration short_break long_break =
     pomodoro_timer.extend (PomodoroTimer_init work_duration short_break long_break)
       (study_timer.fields 120 [])"

section \<open>\<^verbatim>\<open>class RevisionTimer(BaseTimer)\<close>: the single-mode timer\<close>

text \<open>
  \<open>duration\<close> is \<^verbatim>\<open>_duration\<close>, in seconds. The other fields carry the prefix
  \<open>revision_\<close> because the cyclic timer has fields of the same names.
\<close>

record revision_timer = base_timer +
  duration :: int
  revision_remaining_time :: int
  revision_completed_sessions :: "session_record list"
  revision_current_session_type :: string
  revision_sessions_completed :: int
  revision_timer_config :: config

definition RevisionTimer_init :: "int \<Rightarrow> revision_timer" where
  "RevisionTimer_init duration_minutes =
     base_timer.extend ((BaseTimer_init ''Revision Timer'')\<lparr>total_sessions := 0\<rparr>)
       (revision_timer.fields
          (duration_minutes * 60)
          (duration_minutes * 60)
          []
          ''revision''
          0
          (fmap_of_list [(''duration'', duration_minutes)]))"

definition RevisionTimer_start_timer :: "revision_timer \<Rightarrow> revision_timer" where
  "RevisionTimer_start_timer self = self\<lparr>is_running := True\<rparr>"

definition RevisionTimer_get_current_session_info :: "revision_timer \<Rightarrow> string \<times> int \<times> int" where
  "RevisionTimer_get_current_session_info self =
     (''revision'', revision_remaining_time self, total_sessions self)"

text \<open>Python's \<^verbatim>\<open>//\<close> rounds towards minus infinity, as \<open>div\<close> on \<open>int\<close> does.\<close>

definition RevisionTimer_get_timer_config :: "revision_timer \<Rightarrow> config" where
  "RevisionTimer_get_timer_config self = fmap_of_list [(''duration'', duration self div 60)]"

definition RevisionTimer_update_config ::
  "revision_timer \<Rightarrow> config \<Rightarrow> bool \<times> revision_timer" where
  "RevisionTimer_update_config self new_config =
     (case fmlookup new_config ''duration'' of
        None \<Rightarrow> (False, self)
      | Some d \<Rightarrow>
          if d > 0 then
            (let self1 = self\<lparr>duration := d * 60\<rparr>
             in if \<not> is_running self1
                then (True, self1\<lparr>revision_remaining_time := duration self1\<rparr>)
                else (True, self1))
          else (False, self))"

definition RevisionTimer_complete_session :: "revision_timer \<Rightarrow> string \<Rightarrow> revision_timer" where
  "RevisionTimer_complete_session self now =
     (let session_record =
            fmap_of_list
              [(''type'', PyStr ''revision''),
               (''duration'', PyInt (duration self div 60)),
               (''completed_at'', PyStr now),
               (''session_number'', PyInt (revision_sessions_completed self + 1))];
          self1 = self\<lparr>revision_completed_sessions :=
                          revision_completed_sessions self @ [session_record]\<rparr>;
          self2 = self1\<lparr>revision_sessions_completed := revision_sessions_completed self1 + 1\<rparr>;
          self3 = self2\<lparr>total_sessions := total_sessions self2 + 1\<rparr>
      in self3\<lparr>revision_remaining_time := duration self3\<rparr>)"

definition RevisionTimer_get_next_session_type :: "revision_timer \<Rightarrow> string" where
  "RevisionTimer_get_next_session_type self = ''revision''"

section \<open>\<^verbatim>\<open>class DataManager\<close>: the files\<close>

text \<open>
  A file holds text that \<^verbatim>\<open>json.load\<close> either rejects (\<open>Garbage\<close>: an empty or
  truncated file among others) or parses to a value (\<open>Doc\<close>). The file system maps the
  paths that exist to their content; \<^verbatim>\<open>open(p, 'r')\<close> fails on the paths in
  \<open>unreadable\<close> and \<^verbatim>\<open>open(p, 'w')\<close> on those in \<open>unwritable\<close>.
\<close>

datatype content = Garbage | Doc json

record filesystem =
  files :: "(string, content) fmap"
  unreadable :: "string set"
  unwritable :: "string set"

definition path_exists :: "filesystem \<Rightarrow> string \<Rightarrow> bool" where
  "path_exists fs p = (p |\<in>| fmdom (files fs))"

definition open_read :: "filesystem \<Rightarrow> string \<Rightarrow> content result" where
  "open_read fs p =
     (case fmlookup (files fs) p of
        None \<Rightarrow> Inl OSError
      | Some c \<Rightarrow> if p \<in> unreadable fs then Inl OSError else Inr c)"

definition open_write :: "filesystem \<Rightarrow> string \<Rightarrow> content \<Rightarrow> filesystem result" where
  "open_write fs p c =
     (if p \<in> unwritable fs then Inl OSError
      else Inr (fs\<lparr>files := fmupd p c (files fs)\<rparr>))"

definition json_load :: "content \<Rightarrow> json result" where
  "json_load c = (case c of Garbage \<Rightarrow> Inl JSONDecodeError | Doc j \<Rightarrow> Inr j)"

text \<open>
  \<^verbatim>\<open>json.dump\<close> writes an integer through \<^verbatim>\<open>int.__repr__\<close>, which raises
  \<^verbatim>\<open>ValueError\<close> when the integer has more decimal digits than the interpreter's limit
  (\<^verbatim>\<open>sys.get_int_max_str_digits()\<close>, 4300 by default). The values
  \<^verbatim>\<open>save_timer_data\<close> writes are dictionaries with string keys, lists, strings and
  integers, nested four levels at most: apart from such an integer everything in them is
  written, and \<^verbatim>\<open>json.load\<close> reads the text back to the same value.
\<close>

definition int_max_str_digits :: nat where
  "int_max_str_digits = 4300"

definition int_repr_ok :: "int \<Rightarrow> bool" where
  "int_repr_ok i = (\<bar>i\<bar> < 10 ^ int_max_str_digits)"

primrec json_dumpable :: "json \<Rightarrow> bool" where
  "json_dumpable JNull = True"
| "json_dumpable (JBool b) = True"
| "json_dumpable (JInt i) = int_repr_ok i"
| "json_dumpable (JFloat f) = True"
| "json_dumpable (JStr s) = True"
| "json_dumpable (JList xs) = list_all (\<lambda>b. b) (map json_dumpable xs)"
| "json_dumpable (JObj d) = fmpred (\<lambda>k b. b) (fmmap json_dumpable d)"

definition json_dump :: "json \<Rightarrow> content result" where
  "json_dump j = (if json_dumpable j then Inr (Doc j) else Inl ValueError)"

text \<open>
  \<^verbatim>\<open>key in data\<close> for a loaded value: a key of a dictionary, an element of a list, a
  substring of a string; \<^verbatim>\<open>TypeError\<close> on \<^verbatim>\<open>None\<close>, booleans and numbers.
\<close>

definition py_contains :: "json \<Rightarrow> string \<Rightarrow> bool result" where
  "py_contains data key =
     (case data of
        JObj d \<Rightarrow> Inr (key |\<in>| fmdom d)
      | JList xs \<Rightarrow> Inr (JStr key \<in> set xs)
      | JStr s \<Rightarrow> Inr (sublist key s)
      | _ \<Rightarrow> Inl TypeError)"

record data_manager =
  filename :: string
  backup_filename :: string

definition DataManager_init :: "string \<Rightarrow> data_manager" where
  "DataManager_init fname = \<lparr>filename = fname, backup_filename = fname @ ''.bak''\<rparr>"

text \<open>
  The timers \<^verbatim>\<open>save_timer_data\<close> can be given, with the accessors it calls on them.
  Only a \<^verbatim>\<open>StudyTimer\<close> has \<^verbatim>\<open>_study_notes\<close> and \<^verbatim>\<open>_daily_goal_minutes\<close>.
\<close>

datatype timer =
    Pomodoro pomodoro_timer
  | Study study_timer
  | Revision revision_timer

fun timer_get_timer_config :: "timer \<Rightarrow> config" where
  "timer_get_timer_config (Pomodoro t) = get_timer_config t"
| "timer_get_timer_config (Study t) = get_timer_config t"
| "timer_get_timer_config (Revision t) = RevisionTimer_get_timer_config t"

fun timer_get_total_sessions :: "timer \<Rightarrow> int" where
  "timer_get_total_sessions (Pomodoro t) = get_total_sessions t"
| "timer_get_total_sessions (Study t) = get_total_sessions t"
| "timer_get_total_sessions (Revision t) = get_total_sessions t"

fun timer_completed_sessions :: "timer \<Rightarrow> session_record list" where
  "timer_completed_sessions (Pomodoro t) = completed_sessions t"
| "timer_completed_sessions (Study t) = completed_sessions t"
| "timer_completed_sessions (Revision t) = revision_completed_sessions t"

fun timer_extra_items :: "timer \<Rightarrow> (string \<times> json) list" where
  "timer_extra_items (Study t) =
     [(''study_notes'', JList (map JStr (study_notes t))),
      (''daily_goal_minutes'', JInt (daily_goal_minutes t))]"
| "timer_extra_items _ = []"

text \<open>A session record as the JSON object \<^verbatim>\<open>json.dump\<close> writes for it.\<close>

fun json_of_value :: "py_value \<Rightarrow> json" where
  "json_of_value (PyStr s) = JStr s"
| "json_of_value (PyInt i) = JInt i"

definition json_of_record :: "session_record \<Rightarrow> json" where
  "json_of_record r = JObj (fmmap json_of_value r)"

text \<open>The dictionary \<^verbatim>\<open>data\<close> that \<^verbatim>\<open>save_timer_data\<close> builds; \<open>now\<close> is the clock's text.\<close>

definition save_data_dict :: "timer \<Rightarrow> string \<Rightarrow> (string, json) fmap" where
  "save_data_dict t now =
     fmap_of_list
       ([(''timer_config'', JObj (fmmap JInt (timer_get_timer_config t))),
         (''sessions_completed'', JInt (timer_get_total_sessions t)),
         (''completed_sessions'', JList (map json_of_record (timer_completed_sessions t))),
         (''last_saved'', JStr now)]
        @ timer_extra_items t)"

text \<open>
  The inner \<^verbatim>\<open>try\<close> of \<^verbatim>\<open>save_timer_data\<close>: copy the existing file to the backup path;
  any failure is printed and the file system stays as it was.
\<close>

definition create_backup :: "data_manager \<Rightarrow> filesystem \<Rightarrow> filesystem" where
  "create_backup self fs =
     (if path_exists fs (filename self) then
        (case open_read fs (filename self) of
           Inl e \<Rightarrow> fs
         | Inr backup_data \<Rightarrow>
             (case open_write fs (backup_filename self) backup_data of
                Inl e \<Rightarrow> fs
              | Inr fs' \<Rightarrow> fs'))
      else fs)"

text \<open>
  \<^verbatim>\<open>save_timer_data\<close>. \<^verbatim>\<open>open(self.filename, 'w')\<close> empties the file; when
  \<^verbatim>\<open>json.dump\<close> raises, the file keeps the text written so far, which is no JSON
  document, and the \<^verbatim>\<open>except\<close> branch returns \<^verbatim>\<open>False\<close>.
\<close>

definition save_timer_data ::
  "data_manager \<Rightarrow> timer \<Rightarrow> string \<Rightarrow> filesystem \<Rightarrow> bool \<times> filesystem" where
  "save_timer_data self t now fs =
     (let data = save_data_dict t now;
          fs1 = create_backup self fs
      in case open_write fs1 (filename self) Garbage of
           Inl e \<Rightarrow> (False, fs1)
         | Inr fs2 \<Rightarrow>
             (case json_dump (JObj data) of
                Inl e \<Rightarrow> (False, fs2)
              | Inr c \<Rightarrow> (True, fs2\<lparr>files := fmupd (filename self) c (files fs2)\<rparr>)))"

text \<open>
  What \<^verbatim>\<open>load_timer_data\<close> returns is a Python value: the loaded data, or \<^verbatim>\<open>None\<close>, the
  absent result, which is also what \<^verbatim>\<open>json.load\<close> returns for the text \<^verbatim>\<open>null\<close>. Both are
  \<open>JNull\<close>.

  The loop of \<^verbatim>\<open>load_timer_data\<close> over \<^verbatim>\<open>required_keys\<close>, with its early return:
\<close>

fun check_required_keys :: "json \<Rightarrow> string list \<Rightarrow> json result" where
  "check_required_keys data [] = Inr data"
| "check_required_keys data (key # keys) =
     (case py_contains data key of
        Inl e \<Rightarrow> Inl e
      | Inr present \<Rightarrow> if \<not> present then Inr JNull else check_required_keys data keys)"

definition required_keys :: "string list" where
  "required_keys = [''timer_config'', ''sessions_completed'', ''completed_sessions'']"

text \<open>The body of the \<^verbatim>\<open>try\<close> in \<^verbatim>\<open>load_timer_data\<close>: what it returns, or what it raises.\<close>

definition load_timer_data_try :: "data_manager \<Rightarrow> filesystem \<Rightarrow> json result" where
  "load_timer_data_try self fs =
     (if \<not> path_exists fs (filename self) then Inr JNull
      else
        (case open_read fs (filename self) of
           Inl e \<Rightarrow> Inl e
         | Inr c \<Rightarrow>
             (case json_load c of
                Inl e \<Rightarrow> Inl e
              | Inr data \<Rightarrow> check_required_keys data required_keys)))"

definition load_from_backup :: "data_manager \<Rightarrow> filesystem \<Rightarrow> json" where
  "load_from_backup self fs =
     (if path_exists fs (backup_filename self) then
        (case open_read fs (backup_filename self) of
           Inl e \<Rightarrow> JNull
         | Inr c \<Rightarrow>
             (case json_load c of
                Inl e \<Rightarrow> JNull
              | Inr data \<Rightarrow> data))
      else JNull)"

text \<open>\<^verbatim>\<open>except Exception\<close>: every exception of the body leads to the backup.\<close>

definition load_timer_data :: "data_manager \<Rightarrow> filesystem \<Rightarrow> json" where
  "load_timer_data self fs =
     (case load_timer_data_try self fs of
        Inl e \<Rightarrow> load_from_backup self fs
      | Inr r \<Rightarrow> r)"

text \<open>
  A run of the completion handler: \<^verbatim>\<open>complete_session\<close> called once per time stamp, and the
  session type the timer shows after each call.
\<close>

fun session_type_trace :: "'a pomodoro_timer_scheme \<Rightarrow> string list \<Rightarrow> string list" where
  "session_type_trace self [] = []"
| "session_type_trace self (now # rest) =
     current_session_type (snd (complete_session self now))
       # session_type_trace (snd (complete_session self now)) rest"

section \<open>Runs of the cyclic timer\<close>

text \<open>
  The calls a client makes on a \<^verbatim>\<open>PomodoroTimer\<close>: \<^verbatim>\<open>start_timer()\<close>,
  \<^verbatim>\<open>set_running_state(False)\<close> (pause and stop), \<^verbatim>\<open>complete_session()\<close> at a given clock
  text, and \<^verbatim>\<open>update_config(new_config)\<close>. A call that raises or returns \<^verbatim>\<open>False\<close>
  leaves the object as the method left it, and the run goes on from there.
\<close>

datatype timer_op = Start | Pause | Complete string | Update config

fun apply_op :: "pomodoro_timer \<Rightarrow> timer_op \<Rightarrow> pomodoro_timer" where
  "apply_op self Start = start_timer self"
| "apply_op self Pause = set_running_state self False"
| "apply_op self (Complete now) = snd (complete_session self now)"
| "apply_op self (Update new_config) = snd (update_config self new_config)"

fun run_ops :: "pomodoro_timer \<Rightarrow> timer_op list \<Rightarrow> pomodoro_timer" where
  "run_ops self [] = self"
| "run_ops self (x # xs) = run_ops (apply_op self x) xs"

text \<open>
  The bound on the remaining time: \<open>0 \<le> remaining_time \<le> duration of the current type * 60\<close>.
\<close>

definition time_invariant :: "pomodoro_timer \<Rightarrow> bool" where
  "time_invariant self =
     (case get_session_duration self (current_session_type self) of
        Inl e \<Rightarrow> False
      | Inr d \<Rightarrow> 0 \<le> remaining_time self \<and> remaining_time self \<le> d * 60)"

text \<open>
  The calls of \<^verbatim>\<open>update_config\<close> under which the bound survives: made while the timer is
  not running and in a work session, with no negative \<^verbatim>\<open>long_break\<close> supplied.
\<close>

definition update_guard :: "pomodoro_timer \<Rightarrow> config \<Rightarrow> bool" where
  "update_guard self new_config =
     (\<not> is_running self \<and> current_session_type self = ''work''
      \<and> (case fmlookup new_config ''long_break'' of None \<Rightarrow> True | Some l \<Rightarrow> 0 \<le> l))"

fun updates_guarded :: "pomodoro_timer \<Rightarrow> timer_op list \<Rightarrow> bool" where
  "updates_guarded self [] = True"
| "updates_guarded self (Update new_config # xs) =
     (update_guard self new_config \<and> updates_guarded (apply_op self (Update new_config)) xs)"
| "updates_guarded self (x # xs) = updates_guarded (apply_op self x) xs"

text \<open>The session type is one of the three in \<^verbatim>\<open>_session_types\<close>.\<close>

definition valid_type :: "pomodoro_timer \<Rightarrow> bool" where
  "valid_type self =
     (session_types self = {''work'', ''short_break'', ''long_break''}
      \<and> current_session_type self \<in> session_types self)"

text \<open>All three durations are configured and none is negative.\<close>

definition durations_nonneg :: "pomodoro_timer \<Rightarrow> bool" where
  "durations_nonneg self =
     (\<forall>ty. \<exists>d. get_session_duration self ty = Inr d \<and> 0 \<le> d)"

definition timer_inv :: "pomodoro_timer \<Rightarrow> bool" where
  "timer_inv self = (durations_nonneg self \<and> time_invariant self)"

section \<open>Runs of the single-mode timer\<close>

text \<open>
  The calls a client makes on a \<^verbatim>\<open>RevisionTimer\<close>: \<^verbatim>\<open>start_timer()\<close>,
  \<^verbatim>\<open>update_config(new_config)\<close>, whether it returns \<^verbatim>\<open>True\<close> or \<^verbatim>\<open>False\<close>, and
  \<^verbatim>\<open>complete_session()\<close> at a given clock text.
\<close>

datatype revision_op = RevisionStart | RevisionUpdate config | RevisionComplete string

fun revision_apply_op :: "revision_timer \<Rightarrow> revision_op \<Rightarrow> revision_timer" where
  "revision_apply_op self RevisionStart = RevisionTimer_start_timer self"
| "revision_apply_op self (RevisionUpdate new_config) =
     snd (RevisionTimer_update_config self new_config)"
| "revision_apply_op self (RevisionComplete now) = RevisionTimer_complete_session self now"

fun revision_run_ops :: "revision_timer \<Rightarrow> revision_op list \<Rightarrow> revision_timer" where
  "revision_run_ops self [] = self"
| "revision_run_ops self (x # xs) = revision_run_ops (revision_apply_op self x) xs"

text \<open>The number of \<^verbatim>\<open>complete_session\<close> calls in a run.\<close>

fun completions :: "revision_op list \<Rightarrow> nat" where
  "completions [] = 0"
| "completions (RevisionComplete now # xs) = Suc (completions xs)"
| "completions (x # xs) = completions xs"

text \<open>
  The two counters are equal, and equal to the number of records in the history.
\<close>

definition counters_agree :: "revision_timer \<Rightarrow> bool" where
  "counters_agree self =
     (revision_sessions_completed self = total_sessions self
      \<and> total_sessions self = int (length (revision_completed_sessions self)))"

section \<open>Evaluation rules\<close>

lemmas init_defs =
  PomodoroTimer_init_def BaseTimer_init_def base_timer.extend_def pomodoro_timer.fields_def

lemmas complete_defs =
  complete_session_def get_session_duration_def get_next_session_type_def getitem_def Let_def

lemma getitem_Some: "fmlookup d k = Some v \<Longrightarrow> getitem d k = Inr v"
  by (simp add: getitem_def)

lemma getitem_None: "fmlookup d k = None \<Longrightarrow> getitem d k = Inl (KeyError k)"
  by (simp add: getitem_def)

section \<open>The cyclic timer: \<^verbatim>\<open>update_config\<close>\<close>

text \<open>
  C1, as stated, fails: a partial update that omits \<^verbatim>\<open>work_duration\<close> is not accepted.
  On the default timer, \<^verbatim>\<open>update_config({'long_break': 10})\<close> raises
  \<^verbatim>\<open>KeyError('work_duration')\<close> and leaves the timer as it was.
\<close>

theorem update_config_partial_raises:
  "update_config (PomodoroTimer_init 25 5 15) (fmap_of_list [(''long_break'', 10)])
     = (Inl (KeyError ''work_duration''), PomodoroTimer_init 25 5 15)"
  by (simp add: update_config_def getitem_def fmlookup_of_list)

text \<open>
  C1, amended: when the new configuration supplies both \<^verbatim>\<open>work_duration\<close> and
  \<^verbatim>\<open>short_break\<close>, \<^verbatim>\<open>update_config\<close> does not raise. It returns \<^verbatim>\<open>False\<close> and changes
  nothing when either value is \<open>\<le> 0\<close>; otherwise it returns \<^verbatim>\<open>True\<close>, merges the supplied
  keys into the configuration (keys not supplied keep their values) and, only if the timer
  is not running, sets \<open>remaining_time\<close> to the new work duration times 60.
\<close>

theorem update_config_supplied:
  assumes "fmlookup new_config ''work_duration'' = Some w"
      and "fmlookup new_config ''short_break'' = Some s"
  shows "update_config self new_config =
           (if w \<le> 0 \<or> s \<le> 0 then (Inr False, self)
            else (Inr True,
                  self\<lparr>timer_config := timer_config self ++\<^sub>f new_config,
                       remaining_time :=
                         (if is_running self then remaining_time self else w * 60)\<rparr>))"
  using assms
  by (auto simp: update_config_def getitem_def Let_def fmlookup_dom_iff)

theorem update_config_supplied_witness:
  "fmlookup (fmap_of_list [(''work_duration'', 30), (''short_break'', 5)]) ''work_duration''
     = Some (30::int)
   \<and> fmlookup (fmap_of_list [(''work_duration'', 30), (''short_break'', 5)]) ''short_break''
     = Some (5::int)
   \<and> update_config (PomodoroTimer_init 25 5 15)
        (fmap_of_list [(''work_duration'', 30), (''short_break'', 5)])
      = (Inr True,
         (PomodoroTimer_init 25 5 15)
           \<lparr>timer_config := timer_config (PomodoroTimer_init 25 5 15)
                              ++\<^sub>f fmap_of_list [(''work_duration'', 30), (''short_break'', 5)],
            remaining_time := 1800\<rparr>)"
  using update_config_supplied
          [of "fmap_of_list [(''work_duration'', 30), (''short_break'', 5)]" 30 5
              "PomodoroTimer_init 25 5 15"]
  by (simp add: fmlookup_of_list init_defs)

text \<open>
  C8: when the new configuration contains \<^verbatim>\<open>work_duration\<close> and \<^verbatim>\<open>short_break\<close> and at
  least one of the two values is \<open>\<le> 0\<close>, \<^verbatim>\<open>update_config\<close> returns \<^verbatim>\<open>False\<close> and the timer
  is exactly as before: the configuration and \<open>remaining_time\<close> in particular.
\<close>

theorem update_config_rejects_nonpositive:
  assumes "fmlookup new_config ''work_duration'' = Some w"
      and "fmlookup new_config ''short_break'' = Some s"
      and "w \<le> 0 \<or> s \<le> 0"
  shows "update_config self new_config = (Inr False, self)
       \<and> timer_config (snd (update_config self new_config)) = timer_config self
       \<and> remaining_time (snd (update_config self new_config)) = remaining_time self"
  using assms by (auto simp: update_config_def getitem_def)

theorem update_config_rejects_nonpositive_witness:
  "fmlookup (fmap_of_list [(''work_duration'', 25), (''short_break'', 0)]) ''work_duration''
     = Some (25::int)
   \<and> fmlookup (fmap_of_list [(''work_duration'', 25), (''short_break'', 0)]) ''short_break''
     = Some (0::int)
   \<and> ((25::int) \<le> 0 \<or> (0::int) \<le> 0)
   \<and> update_config (PomodoroTimer_init 50 10 15)
        (fmap_of_list [(''work_duration'', 25), (''short_break'', 0)])
      = (Inr False, PomodoroTimer_init 50 10 15)"
  using update_config_rejects_nonpositive
          [of "fmap_of_list [(''work_duration'', 25), (''short_break'', 0)]" 25 0
              "PomodoroTimer_init 50 10 15"]
  by (simp add: fmlookup_of_list)

section \<open>The cyclic timer: \<^verbatim>\<open>get_next_session_type\<close> and \<^verbatim>\<open>complete_session\<close>\<close>

lemma get_next_session_type_formula:
  assumes "fmlookup (timer_config self) ''sessions_until_long_break'' = Some n"
      and "n \<noteq> 0"
  shows "get_next_session_type self =
           Inr (if current_session_type self = ''work''
                then (if (sessions_completed self + 1) mod n = 0
                      then ''long_break'' else ''short_break'')
                else ''work'')"
  using assms by (simp add: get_next_session_type_def getitem_def)

text \<open>
  C4 at its example: the default timer (\<^verbatim>\<open>sessions_until_long_break\<close> = 4), completed seven
  times, so that four work sessions finish. The types after each completion are listed;
  the breaks that follow the four work sessions are short, short, long, short: the long
  break comes after the third work session, because \<^verbatim>\<open>complete_session\<close> increments the
  counter before it calls \<^verbatim>\<open>get_next_session_type\<close>, which adds one again.
\<close>

theorem four_work_sessions_break_sequence:
  "session_type_trace (PomodoroTimer_init 25 5 15)
     [''2024-01-01 09:25:00'', ''2024-01-01 09:30:00'', ''2024-01-01 09:55:00'',
      ''2024-01-01 10:00:00'', ''2024-01-01 10:25:00'', ''2024-01-01 10:40:00'',
      ''2024-01-01 11:05:00'']
   = [''short_break'', ''work'', ''short_break'', ''work'', ''long_break'', ''work'',
      ''short_break'']"
  by (simp add: complete_defs init_defs fmlookup_of_list)




section \<open>The cyclic timer: invariants along a run\<close>

lemma time_invariant_iff:
  "time_invariant self \<longleftrightarrow>
     (\<exists>d. get_session_duration self (current_session_type self) = Inr d
          \<and> 0 \<le> remaining_time self \<and> remaining_time self \<le> d * 60)"
  by (simp add: time_invariant_def split: sum.split)


lemma get_session_duration_cong:
  "timer_config a = timer_config b \<Longrightarrow> get_session_duration a ty = get_session_duration b ty"
  by (simp add: get_session_duration_def)

lemma get_next_session_type_range:
  "get_next_session_type self = Inr t \<Longrightarrow> t \<in> {''work'', ''short_break'', ''long_break''}"
  by (auto simp: get_next_session_type_def getitem_def split: if_splits option.splits)

lemma get_session_duration_update [simp]:
  "get_session_duration (self\<lparr>completed_sessions := cs\<rparr>) = get_session_duration self"
  "get_session_duration (self\<lparr>sessions_completed := n\<rparr>) = get_session_duration self"
  "get_session_duration (self\<lparr>total_sessions := m\<rparr>) = get_session_duration self"
  "get_session_duration (self\<lparr>current_session_type := t\<rparr>) = get_session_duration self"
  "get_session_duration (self\<lparr>remaining_time := k\<rparr>) = get_session_duration self"
  "get_session_duration (self\<lparr>is_running := b\<rparr>) = get_session_duration self"
  by (simp_all add: get_session_duration_def fun_eq_iff)

lemma complete_session_keeps:
  "timer_config (snd (complete_session self now)) = timer_config self"
  "session_types (snd (complete_session self now)) = session_types self"
  "is_running (snd (complete_session self now)) = is_running self"
  by (simp_all add: complete_session_def Let_def split: sum.split)

lemma complete_session_outcome:
  assumes r_def: "r = snd (complete_session self now)"
  shows "(current_session_type r = current_session_type self
             \<and> remaining_time r = remaining_time self)
          \<or> (current_session_type r \<in> {''work'', ''short_break'', ''long_break''}
             \<and> (case get_session_duration self (current_session_type r) of
                   Inl e \<Rightarrow> remaining_time r = remaining_time self
                 | Inr d \<Rightarrow> remaining_time r = d * 60))"
proof (cases "complete_session self now")
  case (Pair res r')
  have r: "r = r'" using Pair r_def by simp
  let ?S = "{''work'', ''short_break'', ''long_break''}"
  let ?P = "\<lambda>r. (current_session_type r = current_session_type self
             \<and> remaining_time r = remaining_time self)
          \<or> (current_session_type r \<in> ?S
             \<and> (case get_session_duration self (current_session_type r) of
                   Inl e \<Rightarrow> remaining_time r = remaining_time self
                 | Inr d \<Rightarrow> remaining_time r = d * 60))"
  show ?thesis
  proof (cases "get_session_duration self (current_session_type self)")
    case (Inl e)
    then have "r = self" using r_def by (simp add: complete_session_def)
    then show ?thesis by simp
  next
    case d: (Inr d)
    obtain self2 :: "'a pomodoro_timer_scheme" where
      s2: "timer_config self2 = timer_config self"
          "current_session_type self2 = current_session_type self"
          "remaining_time self2 = remaining_time self"
      and cs: "complete_session self now =
        (case get_next_session_type self2 of
           Inl e \<Rightarrow> (Inl e, self2)
         | Inr t \<Rightarrow>
            (case get_session_duration self t of
               Inl e \<Rightarrow> (Inl e, self2\<lparr>current_session_type := t\<rparr>)
             | Inr d' \<Rightarrow> (Inr (), self2\<lparr>current_session_type := t, remaining_time := d' * 60\<rparr>)))"
    proof (cases "current_session_type self = ''work''")
      case True
      have d': "get_session_duration self ''work'' = Inr d" using d True by simp
      show ?thesis
        by (rule that [of "self\<lparr>completed_sessions := completed_sessions self @
                  [fmap_of_list
                    [(''type'', PyStr (current_session_type self)),
                     (''duration'', PyInt d),
                     (''completed_at'', PyStr now),
                     (''session_number'', PyInt (sessions_completed self + 1))]],
                sessions_completed := sessions_completed self + 1,
                total_sessions := total_sessions self + 1\<rparr>"])
           (simp_all add: complete_session_def d' True Let_def split: sum.split)
    next
      case False
      show ?thesis
        by (rule that [of "self\<lparr>completed_sessions := completed_sessions self @
                  [fmap_of_list
                    [(''type'', PyStr (current_session_type self)),
                     (''duration'', PyInt d),
                     (''completed_at'', PyStr now),
                     (''session_number'', PyInt (sessions_completed self))]]\<rparr>"])
           (simp_all add: complete_session_def d False Let_def split: sum.split)
    qed
    show ?thesis
    proof (cases "get_next_session_type self2")
      case (Inl e)
      then have "r = self2" using r_def cs by simp
      then show ?thesis using s2 by simp
    next
      case t: (Inr t)
      have rng: "t \<in> ?S" using t by (rule get_next_session_type_range)
      show ?thesis
      proof (cases "get_session_duration self t")
        case (Inl e)
        then have "r = self2\<lparr>current_session_type := t\<rparr>" using r_def cs t by simp
        then show ?thesis using s2 rng Inl by simp
      next
        case (Inr d')
        then have "r = self2\<lparr>current_session_type := t, remaining_time := d' * 60\<rparr>"
          using r_def cs t by simp
        then show ?thesis using s2 rng Inr by simp
      qed
    qed
  qed
qed

lemma update_config_outcome:
  fixes self :: "'a pomodoro_timer_scheme"
  assumes r_def: "r = snd (update_config self c)"
  shows "r = self
       \<or> (\<exists>w s. fmlookup c ''work_duration'' = Some w \<and> 0 < w
               \<and> fmlookup c ''short_break'' = Some s \<and> 0 < s
               \<and> r = self\<lparr>timer_config := timer_config self ++\<^sub>f c,
                          remaining_time :=
                            (if is_running self then remaining_time self else w * 60)\<rparr>)"
proof (cases "fmlookup c ''work_duration''")
  case None
  then show ?thesis by (simp add: r_def update_config_def getitem_def)
next
  case w: (Some w)
  show ?thesis
  proof (cases "fmlookup c ''short_break''")
    case None
    then show ?thesis using w by (simp add: r_def update_config_def getitem_def)
  next
    case s: (Some s)
    show ?thesis
      using w s
      by (simp add: r_def update_config_def getitem_def Let_def fmlookup_dom_iff)
  qed
qed

lemma valid_type_init: "valid_type (PomodoroTimer_init w s l)"
  by (simp add: valid_type_def init_defs)

lemma update_config_keeps:
  "session_types (snd (update_config self c)) = session_types self"
  "current_session_type (snd (update_config self c)) = current_session_type self"
  using update_config_outcome [OF refl, of self c] by auto

lemma valid_type_cong:
  "session_types r = session_types self \<Longrightarrow>
   current_session_type r = current_session_type self \<Longrightarrow>
   valid_type self \<Longrightarrow> valid_type r"
  unfolding valid_type_def by metis

lemma valid_type_apply_op:
  assumes v: "valid_type self"
  shows "valid_type (apply_op self x)"
proof (cases x)
  case Start
  show ?thesis unfolding Start apply_op.simps
    by (rule valid_type_cong [OF _ _ v]) (simp_all add: start_timer_def)
next
  case Pause
  show ?thesis unfolding Pause apply_op.simps
    by (rule valid_type_cong [OF _ _ v]) (simp_all add: set_running_state_def)
next
  case (Complete now)
  let ?r = "snd (complete_session self now)"
  let ?S = "{''work'', ''short_break'', ''long_break''}"
  have st: "session_types ?r = session_types self"
    by (rule complete_session_keeps)
  have "current_session_type ?r = current_session_type self
        \<or> current_session_type ?r \<in> ?S"
    using complete_session_outcome [OF refl, of self now] by blast
  then show ?thesis
  proof
    assume "current_session_type ?r = current_session_type self"
    with st show ?thesis unfolding Complete apply_op.simps
      by (rule valid_type_cong [OF _ _ v])
  next
    assume "current_session_type ?r \<in> ?S"
    moreover have "session_types self = ?S"
      using v by (simp only: valid_type_def)
    ultimately show ?thesis unfolding Complete apply_op.simps valid_type_def st
      by (simp only: simp_thms)
  qed
next
  case (Update c)
  show ?thesis unfolding Update apply_op.simps
    by (rule valid_type_cong [OF _ _ v]) (rule update_config_keeps)+
qed

lemma valid_type_run_ops: "valid_type self \<Longrightarrow> valid_type (run_ops self xs)"
  by (induction xs arbitrary: self) (auto intro: valid_type_apply_op)

lemma timer_inv_init:
  "0 \<le> w \<Longrightarrow> 0 \<le> s \<Longrightarrow> 0 \<le> l \<Longrightarrow> timer_inv (PomodoroTimer_init w s l)"
  by (simp add: timer_inv_def durations_nonneg_def time_invariant_iff init_defs
                get_session_duration_def getitem_def fmlookup_of_list)

lemma timer_inv_running: "timer_inv self \<Longrightarrow> timer_inv (self\<lparr>is_running := b\<rparr>)"
  by (simp add: timer_inv_def durations_nonneg_def time_invariant_iff)

lemma timer_inv_complete:
  assumes "timer_inv self"
  shows "timer_inv (snd (complete_session self now))"
proof -
  let ?r = "snd (complete_session self now)"
  note o = complete_session_outcome [OF refl, of self now]
  have eq: "\<And>ty. get_session_duration ?r ty = get_session_duration self ty"
    by (rule get_session_duration_cong) (simp add: complete_session_keeps)
  have dn: "durations_nonneg ?r"
    using assms by (simp add: timer_inv_def durations_nonneg_def eq)
  obtain d where d: "get_session_duration self (current_session_type ?r) = Inr d" "0 \<le> d"
    using assms unfolding timer_inv_def durations_nonneg_def by blast
  from o have "(current_session_type ?r = current_session_type self
             \<and> remaining_time ?r = remaining_time self) \<or> remaining_time ?r = d * 60"
    using d by auto
  then have "time_invariant ?r"
  proof
    assume "current_session_type ?r = current_session_type self
             \<and> remaining_time ?r = remaining_time self"
    then show ?thesis using assms by (simp add: timer_inv_def time_invariant_iff eq)
  next
    assume "remaining_time ?r = d * 60"
    then show ?thesis using d by (simp add: time_invariant_iff eq)
  qed
  with dn show ?thesis by (simp add: timer_inv_def)
qed

lemma durations_nonneg_iff:
  "durations_nonneg self \<longleftrightarrow>
     (\<exists>w s l. fmlookup (timer_config self) ''work_duration'' = Some w \<and> 0 \<le> w
            \<and> fmlookup (timer_config self) ''short_break'' = Some s \<and> 0 \<le> s
            \<and> fmlookup (timer_config self) ''long_break'' = Some l \<and> 0 \<le> l)"
proof
  assume a: "durations_nonneg self"
  from a obtain w where "get_session_duration self ''work'' = Inr w \<and> 0 \<le> w"
    unfolding durations_nonneg_def by blast
  moreover from a obtain s where "get_session_duration self ''short_break'' = Inr s \<and> 0 \<le> s"
    unfolding durations_nonneg_def by blast
  moreover from a obtain l where "get_session_duration self ''long_break'' = Inr l \<and> 0 \<le> l"
    unfolding durations_nonneg_def by blast
  ultimately show "\<exists>w s l. fmlookup (timer_config self) ''work_duration'' = Some w \<and> 0 \<le> w
            \<and> fmlookup (timer_config self) ''short_break'' = Some s \<and> 0 \<le> s
            \<and> fmlookup (timer_config self) ''long_break'' = Some l \<and> 0 \<le> l"
    by (simp add: get_session_duration_def getitem_def split: option.splits)
next
  assume "\<exists>w s l. fmlookup (timer_config self) ''work_duration'' = Some w \<and> 0 \<le> w
            \<and> fmlookup (timer_config self) ''short_break'' = Some s \<and> 0 \<le> s
            \<and> fmlookup (timer_config self) ''long_break'' = Some l \<and> 0 \<le> l"
  then show "durations_nonneg self"
    by (auto simp: durations_nonneg_def get_session_duration_def getitem_def)
qed

lemma timer_inv_update:
  assumes "timer_inv self" and "update_guard self c"
  shows "timer_inv (snd (update_config self c))"
proof -
  let ?r = "snd (update_config self c)"
  from update_config_outcome [OF refl, of self c]
  consider "?r = self"
    | w s where "fmlookup c ''work_duration'' = Some w" "0 < w"
                "fmlookup c ''short_break'' = Some s" "0 < s"
                "?r = self\<lparr>timer_config := timer_config self ++\<^sub>f c,
                          remaining_time :=
                            (if is_running self then remaining_time self else w * 60)\<rparr>"
    by blast
  then show ?thesis
  proof cases
    case 1
    then show ?thesis using assms by simp
  next
    case 2
    have g: "\<not> is_running self" "current_session_type self = ''work''"
      using assms(2) by (simp_all add: update_guard_def)
    obtain l0 where l0: "fmlookup (timer_config self) ''long_break'' = Some l0" "0 \<le> l0"
      using assms(1) unfolding timer_inv_def durations_nonneg_iff by blast
    have lb: "\<exists>l. fmlookup (timer_config self ++\<^sub>f c) ''long_break'' = Some l \<and> 0 \<le> l"
    proof (cases "fmlookup c ''long_break''")
      case None
      then show ?thesis using l0 by (simp add: fmdom_notI)
    next
      case (Some l)
      then show ?thesis using assms(2) by (simp add: update_guard_def fmdomI)
    qed
    have wk: "fmlookup (timer_config self ++\<^sub>f c) ''work_duration'' = Some w"
      and sb: "fmlookup (timer_config self ++\<^sub>f c) ''short_break'' = Some s"
      using 2 by (simp_all add: fmdomI)
    have r: "timer_config ?r = timer_config self ++\<^sub>f c" "remaining_time ?r = w * 60"
            "current_session_type ?r = ''work''"
      using g by (simp_all add: 2(5))
    have dn: "durations_nonneg ?r"
      unfolding durations_nonneg_iff r using lb wk sb 2(2,4) by auto
    have "time_invariant ?r"
      unfolding time_invariant_iff r using wk 2(2)
      by (simp add: get_session_duration_def getitem_def r)
    with dn show ?thesis by (simp add: timer_inv_def)
  qed
qed

lemma timer_inv_run_ops:
  "timer_inv self \<Longrightarrow> updates_guarded self xs \<Longrightarrow> timer_inv (run_ops self xs)"
proof (induction xs arbitrary: self)
  case Nil
  then show ?case by simp
next
  case (Cons x xs)
  show ?case
  proof (cases x)
    case Start
    with Cons show ?thesis by (simp add: start_timer_def timer_inv_running)
  next
    case Pause
    with Cons show ?thesis by (simp add: set_running_state_def timer_inv_running)
  next
    case (Complete now)
    with Cons show ?thesis by (simp add: timer_inv_complete)
  next
    case (Update c)
    with Cons show ?thesis by (simp add: timer_inv_update)
  qed
qed

text \<open>
  C3, as stated, fails: a successful \<^verbatim>\<open>update_config\<close> can break the bound on
  \<open>remaining_time\<close>. Three runs from the default timer: (1) start, then set the work
  duration to 1 minute: the running timer keeps 1500 seconds, more than 60; (2) complete the
  work session, then update during the short break: \<open>remaining_time\<close> becomes 1500, more
  than 300; (3) set \<^verbatim>\<open>long_break\<close> to -1 (never validated) and
  \<^verbatim>\<open>sessions_until_long_break\<close> to 2, then complete the work session: the long break
  starts with -60 seconds.
\<close>

theorem remaining_time_bound_broken:
  "fst (update_config (start_timer (PomodoroTimer_init 25 5 15))
          (fmap_of_list [(''work_duration'', 1), (''short_break'', 5)])) = Inr True
   \<and> \<not> time_invariant
         (run_ops (PomodoroTimer_init 25 5 15)
            [Start, Update (fmap_of_list [(''work_duration'', 1), (''short_break'', 5)])])
   \<and> fst (update_config
            (run_ops (PomodoroTimer_init 25 5 15) [Complete ''2024-01-01 09:25:00''])
            (fmap_of_list [(''work_duration'', 25), (''short_break'', 5)])) = Inr True
   \<and> \<not> time_invariant
         (run_ops (PomodoroTimer_init 25 5 15)
            [Complete ''2024-01-01 09:25:00'',
             Update (fmap_of_list [(''work_duration'', 25), (''short_break'', 5)])])
   \<and> fst (update_config (PomodoroTimer_init 25 5 15)
            (fmap_of_list [(''work_duration'', 25), (''short_break'', 5),
                           (''long_break'', -1), (''sessions_until_long_break'', 2)])) = Inr True
   \<and> \<not> time_invariant
         (run_ops (PomodoroTimer_init 25 5 15)
            [Update (fmap_of_list [(''work_duration'', 25), (''short_break'', 5),
                                   (''long_break'', -1), (''sessions_until_long_break'', 2)]),
             Complete ''2024-01-01 09:25:00''])"
  by (simp add: time_invariant_def update_config_def start_timer_def complete_defs init_defs
                fmlookup_of_list)

text \<open>
  C3, amended. From \<^verbatim>\<open>PomodoroTimer(w, s, l)\<close>, after any sequence of start, pause/stop,
  \<^verbatim>\<open>complete_session\<close> and \<^verbatim>\<open>update_config\<close> calls, the session type is one of work,
  short_break, long_break. If moreover \<open>w\<close>, \<open>s\<close>, \<open>l\<close> are not negative and every
  \<^verbatim>\<open>update_config\<close> is called while the timer is not running and in a work session, with
  no negative \<^verbatim>\<open>long_break\<close> supplied, then
  \<open>0 \<le> remaining_time \<le> duration of the current type * 60\<close>.
\<close>

theorem reachable_invariants:
  "valid_type (run_ops (PomodoroTimer_init w s l) xs)
   \<and> (0 \<le> w \<and> 0 \<le> s \<and> 0 \<le> l \<and> updates_guarded (PomodoroTimer_init w s l) xs
        \<longrightarrow> time_invariant (run_ops (PomodoroTimer_init w s l) xs))"
  using valid_type_run_ops [OF valid_type_init] timer_inv_run_ops [OF timer_inv_init]
  by (auto simp: timer_inv_def)

theorem reachable_invariants_witness:
  "(0::int) \<le> 25 \<and> (0::int) \<le> 5 \<and> (0::int) \<le> 15
   \<and> updates_guarded (PomodoroTimer_init 25 5 15)
        [Update (fmap_of_list [(''work_duration'', 30), (''short_break'', 10),
                               (''long_break'', 20)]),
         Start, Complete ''2024-01-01 09:30:00'', Pause]
   \<and> valid_type
        (run_ops (PomodoroTimer_init 25 5 15)
           [Update (fmap_of_list [(''work_duration'', 30), (''short_break'', 10),
                                  (''long_break'', 20)]),
            Start, Complete ''2024-01-01 09:30:00'', Pause])
   \<and> time_invariant
        (run_ops (PomodoroTimer_init 25 5 15)
           [Update (fmap_of_list [(''work_duration'', 30), (''short_break'', 10),
                                  (''long_break'', 20)]),
            Start, Complete ''2024-01-01 09:30:00'', Pause])"
  using reachable_invariants
          [of 25 5 15
              "[Update (fmap_of_list [(''work_duration'', 30), (''short_break'', 10),
                                      (''long_break'', 20)]),
                Start, Complete ''2024-01-01 09:30:00'', Pause]"]
  by (simp add: update_guard_def init_defs fmlookup_of_list)

section \<open>The single-mode timer\<close>

lemmas revision_init_defs =
  RevisionTimer_init_def BaseTimer_init_def base_timer.extend_def revision_timer.fields_def

lemma counters_agree_init: "counters_agree (RevisionTimer_init d)"
  by (simp add: counters_agree_def revision_init_defs)

lemma counters_agree_apply_op:
  "counters_agree self \<Longrightarrow> counters_agree (revision_apply_op self x)"
  by (cases x)
     (simp_all add: counters_agree_def RevisionTimer_start_timer_def RevisionTimer_update_config_def
                RevisionTimer_complete_session_def Let_def split: option.split)

lemma counters_agree_run_ops:
  "counters_agree self \<Longrightarrow> counters_agree (revision_run_ops self xs)"
  by (induction xs arbitrary: self) (simp_all add: counters_agree_apply_op)

lemma duration_multiple_apply_op:
  "60 dvd duration self \<Longrightarrow> 60 dvd duration (revision_apply_op self x)"
  by (cases x)
     (simp_all add: RevisionTimer_start_timer_def RevisionTimer_update_config_def
                RevisionTimer_complete_session_def Let_def split: option.split)

lemma duration_multiple_run_ops:
  "60 dvd duration self \<Longrightarrow> 60 dvd duration (revision_run_ops self xs)"
  by (induction xs arbitrary: self) (simp_all add: duration_multiple_apply_op)

lemma duration_multiple_init: "60 dvd duration (RevisionTimer_init d)"
  by (simp add: revision_init_defs)

text \<open>
  C9: for the revision timer, \<^verbatim>\<open>get_next_session_type\<close> is \<open>revision\<close>;
  \<^verbatim>\<open>complete_session\<close> appends one record, adds one to the session counter and to the
  total counter, and sets the remaining time to \<^verbatim>\<open>_duration\<close>, which on every timer
  obtained from the constructor by start, \<^verbatim>\<open>update_config\<close> and \<^verbatim>\<open>complete_session\<close> is
  the configured duration (what \<^verbatim>\<open>get_timer_config\<close> reports) times 60. For a timer made
  with \<open>duration = 60\<close>, after start and one \<^verbatim>\<open>complete_session\<close>,
  \<^verbatim>\<open>get_current_session_info\<close> returns \<open>(revision, 3600, 1)\<close>.
\<close>

theorem revision_timer_behaviour:
  "RevisionTimer_get_next_session_type self = ''revision''
   \<and> RevisionTimer_complete_session self now =
       self\<lparr>total_sessions := total_sessions self + 1,
            revision_remaining_time := duration self,
            revision_completed_sessions :=
              revision_completed_sessions self @
                [fmap_of_list
                   [(''type'', PyStr ''revision''),
                    (''duration'', PyInt (duration self div 60)),
                    (''completed_at'', PyStr now),
                    (''session_number'', PyInt (revision_sessions_completed self + 1))]],
            revision_sessions_completed := revision_sessions_completed self + 1\<rparr>
   \<and> (\<exists>m. fmlookup (RevisionTimer_get_timer_config (revision_run_ops (RevisionTimer_init d) xs))
               ''duration'' = Some m
          \<and> revision_remaining_time
              (RevisionTimer_complete_session (revision_run_ops (RevisionTimer_init d) xs) now)
            = m * 60)
   \<and> RevisionTimer_get_current_session_info
        (RevisionTimer_complete_session
           (RevisionTimer_start_timer (RevisionTimer_init 60)) now)
       = (''revision'', 3600, 1)"
proof -
  have "60 dvd duration (revision_run_ops (RevisionTimer_init d) xs)"
    by (rule duration_multiple_run_ops [OF duration_multiple_init])
  then have "duration (revision_run_ops (RevisionTimer_init d) xs) div 60 * 60
               = duration (revision_run_ops (RevisionTimer_init d) xs)"
    by simp
  then have "\<exists>m. fmlookup (RevisionTimer_get_timer_config
                            (revision_run_ops (RevisionTimer_init d) xs)) ''duration'' = Some m
          \<and> revision_remaining_time
              (RevisionTimer_complete_session (revision_run_ops (RevisionTimer_init d) xs) now)
            = m * 60"
    by (simp add: RevisionTimer_get_timer_config_def RevisionTimer_complete_session_def Let_def)
  moreover have "RevisionTimer_get_next_session_type self = ''revision''"
    by (simp add: RevisionTimer_get_next_session_type_def)
  moreover have "RevisionTimer_complete_session self now =
       self\<lparr>total_sessions := total_sessions self + 1,
            revision_remaining_time := duration self,
            revision_completed_sessions :=
              revision_completed_sessions self @
                [fmap_of_list
                   [(''type'', PyStr ''revision''),
                    (''duration'', PyInt (duration self div 60)),
                    (''completed_at'', PyStr now),
                    (''session_number'', PyInt (revision_sessions_completed self + 1))]],
            revision_sessions_completed := revision_sessions_completed self + 1\<rparr>"
    by (simp add: RevisionTimer_complete_session_def Let_def)
  moreover have "RevisionTimer_get_current_session_info
        (RevisionTimer_complete_session
           (RevisionTimer_start_timer (RevisionTimer_init 60)) now)
       = (''revision'', 3600, 1)"
    by (simp add: RevisionTimer_complete_session_def RevisionTimer_start_timer_def
                  RevisionTimer_get_current_session_info_def revision_init_defs Let_def)
  ultimately show ?thesis by blast
qed

lemma total_sessions_run_ops:
  "total_sessions (revision_run_ops self xs) = total_sessions self + int (completions xs)"
proof (induction xs arbitrary: self)
  case Nil
  then show ?case by simp
next
  case (Cons x xs)
  show ?case
  proof (cases x)
    case RevisionStart
    then show ?thesis by (simp add: Cons RevisionTimer_start_timer_def)
  next
    case (RevisionUpdate c)
    then show ?thesis
      by (simp add: Cons RevisionTimer_update_config_def Let_def split: option.split)
  next
    case (RevisionComplete now)
    then show ?thesis by (simp add: Cons RevisionTimer_complete_session_def Let_def)
  qed
qed

text \<open>
  C10: on every revision timer obtained from the constructor by any sequence of
  \<^verbatim>\<open>start_timer\<close>, \<^verbatim>\<open>update_config\<close> and \<^verbatim>\<open>complete_session\<close>, the completed-session
  counter equals the total-session counter, and the third component of
  \<^verbatim>\<open>get_current_session_info\<close> equals that counter, the number of records in the
  history, and the number of \<^verbatim>\<open>complete_session\<close> calls made.
\<close>

theorem revision_counters_equal:
  "revision_sessions_completed (revision_run_ops (RevisionTimer_init d) xs)
     = total_sessions (revision_run_ops (RevisionTimer_init d) xs)
   \<and> snd (snd (RevisionTimer_get_current_session_info
                 (revision_run_ops (RevisionTimer_init d) xs)))
     = revision_sessions_completed (revision_run_ops (RevisionTimer_init d) xs)
   \<and> snd (snd (RevisionTimer_get_current_session_info
                 (revision_run_ops (RevisionTimer_init d) xs)))
     = int (length (revision_completed_sessions (revision_run_ops (RevisionTimer_init d) xs)))
   \<and> snd (snd (RevisionTimer_get_current_session_info
                 (revision_run_ops (RevisionTimer_init d) xs)))
     = int (completions xs)"
proof -
  have "total_sessions (revision_run_ops (RevisionTimer_init d) xs) = int (completions xs)"
    using total_sessions_run_ops [of "RevisionTimer_init d" xs]
    by (simp add: revision_init_defs)
  then show ?thesis
    using counters_agree_run_ops [OF counters_agree_init, of d xs]
    by (simp add: counters_agree_def RevisionTimer_get_current_session_info_def)
qed

section \<open>Saving and loading\<close>

lemma create_backup_perms:
  "unreadable (create_backup self fs) = unreadable fs"
  "unwritable (create_backup self fs) = unwritable fs"
  by (simp_all add: create_backup_def open_read_def open_write_def split: option.split)

lemma save_data_dict_keys:
  "fmlookup (save_data_dict t now) ''timer_config''
     = Some (JObj (fmmap JInt (timer_get_timer_config t)))"
  "fmlookup (save_data_dict t now) ''sessions_completed''
     = Some (JInt (timer_get_total_sessions t))"
  "fmlookup (save_data_dict t now) ''completed_sessions''
     = Some (JList (map json_of_record (timer_completed_sessions t)))"
  by (cases t; simp add: save_data_dict_def)+

lemma check_required_keys_present:
  assumes "''timer_config'' |\<in>| fmdom d" "''sessions_completed'' |\<in>| fmdom d"
          "''completed_sessions'' |\<in>| fmdom d"
  shows "check_required_keys (JObj d) required_keys = Inr (JObj d)"
  using assms by (simp add: required_keys_def py_contains_def)

lemma check_required_keys_missing:
  assumes "\<not> (''timer_config'' |\<in>| fmdom d \<and> ''sessions_completed'' |\<in>| fmdom d
             \<and> ''completed_sessions'' |\<in>| fmdom d)"
  shows "check_required_keys (JObj d) required_keys = Inr JNull"
  using assms by (auto simp: required_keys_def py_contains_def)

lemma save_timer_data_dumpable:
  assumes "filename self \<notin> unwritable fs" and "json_dumpable (JObj (save_data_dict t now))"
  shows "save_timer_data self t now fs =
           (True, (create_backup self fs)
                    \<lparr>files := fmupd (filename self) (Doc (JObj (save_data_dict t now)))
                                (files (create_backup self fs))\<rparr>)"
  using assms
  by (simp add: save_timer_data_def open_write_def json_dump_def Let_def create_backup_perms)

lemma load_after_save:
  assumes "filename self \<notin> unwritable fs" and "filename self \<notin> unreadable fs"
      and "json_dumpable (JObj (save_data_dict t now))"
  shows "load_timer_data self (snd (save_timer_data self t now fs))
           = JObj (save_data_dict t now)"
proof -
  let ?fs2 = "(create_backup self fs)
                \<lparr>files := fmupd (filename self) (Doc (JObj (save_data_dict t now)))
                            (files (create_backup self fs))\<rparr>"
  have r: "filename self \<notin> unreadable ?fs2"
    using assms(2) by (simp add: create_backup_perms)
  have dom: "''timer_config'' |\<in>| fmdom (save_data_dict t now)"
            "''sessions_completed'' |\<in>| fmdom (save_data_dict t now)"
            "''completed_sessions'' |\<in>| fmdom (save_data_dict t now)"
    by (simp_all add: fmdomI save_data_dict_keys)
  have "load_timer_data_try self ?fs2 = Inr (JObj (save_data_dict t now))"
    using r check_required_keys_present [OF dom]
    by (simp add: load_timer_data_try_def path_exists_def open_read_def json_load_def)
  then have "load_timer_data self ?fs2 = JObj (save_data_dict t now)"
    by (simp add: load_timer_data_def)
  then show ?thesis
    by (simp add: save_timer_data_dumpable [OF assms(1,3)])
qed

lemma json_of_value_inj: "inj json_of_value"
proof (rule injI)
  fix a b assume "json_of_value a = json_of_value b"
  then show "a = b" by (cases a; cases b) simp_all
qed

lemma json_of_record_inj: "inj json_of_record"
proof (rule injI)
  fix a b :: session_record
  assume "json_of_record a = json_of_record b"
  then have "fmmap json_of_value a = fmmap json_of_value b"
    by (simp add: json_of_record_def)
  then show "a = b"
    using json_of_value_inj by (metis fmap.inj_map injD)
qed

lemma int_repr_ok_small: "\<bar>i\<bar> < 10000 \<Longrightarrow> int_repr_ok i"
proof -
  assume "\<bar>i\<bar> < 10000"
  moreover have "(10::int) ^ 4 \<le> 10 ^ int_max_str_digits"
    by (rule power_increasing) (simp_all add: int_max_str_digits_def)
  ultimately show ?thesis by (simp add: int_repr_ok_def)
qed

lemma json_dumpable_JObj:
  "json_dumpable (JObj d) \<longleftrightarrow> (\<forall>k v. fmlookup d k = Some v \<longrightarrow> json_dumpable v)"
  by (auto simp: fmpred_iff)

text \<open>
  C6, as stated, fails for some configurations: a timer whose work duration has 4301
  decimal digits (the constructor and \<^verbatim>\<open>update_config\<close> accept it) cannot be written.
  \<^verbatim>\<open>json.dump\<close> raises, \<^verbatim>\<open>save_timer_data\<close> returns \<^verbatim>\<open>False\<close> and leaves a primary
  file that does not parse, and \<^verbatim>\<open>load_timer_data\<close> then returns \<^verbatim>\<open>None\<close>.
\<close>

theorem save_fails_on_long_integer:
  "save_timer_data (DataManager_init ''pomodoro_data.json'')
     (Pomodoro (PomodoroTimer_init (10 ^ int_max_str_digits) 5 15)) ''2024-01-01 09:26:00''
     \<lparr>files = fmempty, unreadable = {}, unwritable = {}\<rparr>
   = (False,
      \<lparr>files = fmap_of_list [(''pomodoro_data.json'', Garbage)],
       unreadable = {}, unwritable = {}\<rparr>)
   \<and> load_timer_data (DataManager_init ''pomodoro_data.json'')
       (snd (save_timer_data (DataManager_init ''pomodoro_data.json'')
          (Pomodoro (PomodoroTimer_init (10 ^ int_max_str_digits) 5 15)) ''2024-01-01 09:26:00''
          \<lparr>files = fmempty, unreadable = {}, unwritable = {}\<rparr>))
     = JNull"
proof -
  have nd: "\<not> json_dumpable (JObj (save_data_dict
              (Pomodoro (PomodoroTimer_init (10 ^ int_max_str_digits) 5 15))
              ''2024-01-01 09:26:00''))"
  proof -
    have "fmlookup (fmmap JInt (timer_config (PomodoroTimer_init (10 ^ int_max_str_digits) 5 15)))
            ''work_duration'' = Some (JInt (10 ^ int_max_str_digits))"
      by (simp add: init_defs)
    moreover have "\<not> json_dumpable (JInt (10 ^ int_max_str_digits))"
      by (simp add: int_repr_ok_def)
    ultimately have "\<not> json_dumpable
         (JObj (fmmap JInt (timer_config (PomodoroTimer_init (10 ^ int_max_str_digits) 5 15))))"
      unfolding json_dumpable_JObj by blast
    moreover have "fmlookup (save_data_dict
              (Pomodoro (PomodoroTimer_init (10 ^ int_max_str_digits) 5 15))
              ''2024-01-01 09:26:00'') ''timer_config''
          = Some (JObj (fmmap JInt
                    (timer_config (PomodoroTimer_init (10 ^ int_max_str_digits) 5 15))))"
      by (simp add: save_data_dict_keys get_timer_config_def)
    ultimately show ?thesis
      unfolding json_dumpable_JObj [of "save_data_dict _ _"] by blast
  qed
  have sv: "save_timer_data (DataManager_init ''pomodoro_data.json'')
     (Pomodoro (PomodoroTimer_init (10 ^ int_max_str_digits) 5 15)) ''2024-01-01 09:26:00''
     \<lparr>files = fmempty, unreadable = {}, unwritable = {}\<rparr>
   = (False,
      \<lparr>files = fmap_of_list [(''pomodoro_data.json'', Garbage)],
       unreadable = {}, unwritable = {}\<rparr>)"
    using nd
    by (simp add: save_timer_data_def Let_def json_dump_def open_write_def create_backup_def
                  path_exists_def DataManager_init_def)
  show ?thesis
    unfolding sv
    by (simp add: load_timer_data_def load_timer_data_try_def load_from_backup_def
                  path_exists_def open_read_def json_load_def DataManager_init_def)
qed

text \<open>
  C6, amended: when the primary file can be written and read and \<^verbatim>\<open>json.dump\<close> can write
  the timer's data (every integer in it, that is every configuration value, the session
  total, the integers of the records and the daily goal, has at most 4300 decimal digits),
  \<^verbatim>\<open>save_timer_data\<close> succeeds and \<^verbatim>\<open>load_timer_data\<close> on the resulting files returns a
  dictionary whose \<^verbatim>\<open>completed_sessions\<close> is the list of the timer's records, as many and
  field by field (distinct records are written as distinct objects), and whose
  \<^verbatim>\<open>timer_config\<close> is the timer's configuration: \<^verbatim>\<open>_timer_config\<close> for the cyclic timers,
  \<^verbatim>\<open>{'duration': _duration // 60}\<close> for the revision timer.
\<close>

theorem save_then_load:
  assumes "filename self \<notin> unwritable fs" and "filename self \<notin> unreadable fs"
      and "json_dumpable (JObj (save_data_dict t now))"
  shows "fst (save_timer_data self t now fs) = True
       \<and> (\<exists>d. load_timer_data self (snd (save_timer_data self t now fs)) = JObj d
            \<and> fmlookup d ''completed_sessions''
                = Some (JList (map json_of_record
                     (case t of Pomodoro p \<Rightarrow> completed_sessions p
                              | Study s \<Rightarrow> completed_sessions s
                              | Revision r \<Rightarrow> revision_completed_sessions r)))
            \<and> fmlookup d ''timer_config''
                = Some (JObj (fmmap JInt
                     (case t of Pomodoro p \<Rightarrow> timer_config p
                              | Study s \<Rightarrow> timer_config s
                              | Revision r \<Rightarrow> fmap_of_list [(''duration'', duration r div 60)]))))
       \<and> length (map json_of_record
                   (case t of Pomodoro p \<Rightarrow> completed_sessions p
                            | Study s \<Rightarrow> completed_sessions s
                            | Revision r \<Rightarrow> revision_completed_sessions r))
           = length (case t of Pomodoro p \<Rightarrow> completed_sessions p
                             | Study s \<Rightarrow> completed_sessions s
                             | Revision r \<Rightarrow> revision_completed_sessions r)
       \<and> inj json_of_record"
proof -
  have "fst (save_timer_data self t now fs) = True"
    by (simp add: save_timer_data_dumpable [OF assms(1,3)])
  moreover have "load_timer_data self (snd (save_timer_data self t now fs))
                   = JObj (save_data_dict t now)"
    by (rule load_after_save [OF assms])
  moreover have "fmlookup (save_data_dict t now) ''completed_sessions''
                = Some (JList (map json_of_record
                     (case t of Pomodoro p \<Rightarrow> completed_sessions p
                              | Study s \<Rightarrow> completed_sessions s
                              | Revision r \<Rightarrow> revision_completed_sessions r)))"
    by (cases t) (simp_all add: save_data_dict_keys)
  moreover have "fmlookup (save_data_dict t now) ''timer_config''
                = Some (JObj (fmmap JInt
                     (case t of Pomodoro p \<Rightarrow> timer_config p
                              | Study s \<Rightarrow> timer_config s
                              | Revision r \<Rightarrow> fmap_of_list [(''duration'', duration r div 60)])))"
    by (cases t)
       (simp_all add: save_data_dict_keys get_timer_config_def RevisionTimer_get_timer_config_def)
  ultimately show ?thesis
    using json_of_record_inj by simp
qed

theorem save_then_load_witness:
  "filename (DataManager_init ''pomodoro_data.json'')
      \<notin> unwritable \<lparr>files = fmempty, unreadable = {}, unwritable = {}\<rparr>
   \<and> filename (DataManager_init ''pomodoro_data.json'')
      \<notin> unreadable \<lparr>files = fmempty, unreadable = {}, unwritable = {}\<rparr>
   \<and> json_dumpable (JObj (save_data_dict
         (Pomodoro (snd (complete_session (PomodoroTimer_init 25 5 15) ''2024-01-01 09:25:00'')))
         ''2024-01-01 09:26:00''))
   \<and> fst (save_timer_data (DataManager_init ''pomodoro_data.json'')
            (Pomodoro (snd (complete_session (PomodoroTimer_init 25 5 15) ''2024-01-01 09:25:00'')))
            ''2024-01-01 09:26:00''
            \<lparr>files = fmempty, unreadable = {}, unwritable = {}\<rparr>) = True
   \<and> (\<exists>d. load_timer_data (DataManager_init ''pomodoro_data.json'')
              (snd (save_timer_data (DataManager_init ''pomodoro_data.json'')
                 (Pomodoro (snd (complete_session (PomodoroTimer_init 25 5 15)
                                   ''2024-01-01 09:25:00'')))
                 ''2024-01-01 09:26:00''
                 \<lparr>files = fmempty, unreadable = {}, unwritable = {}\<rparr>)) = JObj d
          \<and> fmlookup d ''completed_sessions''
              = Some (JList
                  [JObj (fmap_of_list
                     [(''type'', JStr ''work''),
                      (''duration'', JInt 25),
                      (''completed_at'', JStr ''2024-01-01 09:25:00''),
                      (''session_number'', JInt 1)])])
          \<and> fmlookup d ''timer_config''
              = Some (JObj (fmap_of_list
                     [(''work_duration'', JInt 25),
                      (''short_break'', JInt 5),
                      (''long_break'', JInt 15),
                      (''sessions_until_long_break'', JInt 4)])))"
proof -
  let ?now = "''2024-01-01 09:25:00''"
  let ?t = "Pomodoro (snd (complete_session (PomodoroTimer_init 25 5 15) ?now))"
  let ?fs = "\<lparr>files = fmempty, unreadable = {}, unwritable = {}\<rparr>"
  let ?dm = "DataManager_init ''pomodoro_data.json''"
  have h1: "filename ?dm \<notin> unwritable ?fs" by simp
  have h2: "filename ?dm \<notin> unreadable ?fs" by simp
  have cfg: "timer_config (snd (complete_session (PomodoroTimer_init 25 5 15) ?now))
               = fmap_of_list [(''work_duration'', 25), (''short_break'', 5),
                               (''long_break'', 15), (''sessions_until_long_break'', 4)]"
    by (simp add: complete_defs init_defs)
  have recs: "completed_sessions (snd (complete_session (PomodoroTimer_init 25 5 15) ?now))
               = [fmap_of_list [(''type'', PyStr ''work''), (''duration'', PyInt 25),
                                (''completed_at'', PyStr ?now), (''session_number'', PyInt 1)]]"
    by (simp add: complete_defs init_defs)
  have tot: "total_sessions (snd (complete_session (PomodoroTimer_init 25 5 15) ?now)) = 1"
    by (simp add: complete_defs init_defs)
  have data: "save_data_dict ?t ''2024-01-01 09:26:00'' =
      fmap_of_list
        [(''timer_config'', JObj (fmap_of_list
            [(''work_duration'', JInt 25), (''short_break'', JInt 5),
             (''long_break'', JInt 15), (''sessions_until_long_break'', JInt 4)])),
         (''sessions_completed'', JInt 1),
         (''completed_sessions'', JList [JObj (fmap_of_list
            [(''type'', JStr ''work''), (''duration'', JInt 25),
             (''completed_at'', JStr ?now), (''session_number'', JInt 1)])]),
         (''last_saved'', JStr ''2024-01-01 09:26:00'')]"
    by (simp add: save_data_dict_def get_timer_config_def get_total_sessions_def
                  json_of_record_def cfg recs tot fmmap_fmupd)
  have h3: "json_dumpable (JObj (save_data_dict ?t ''2024-01-01 09:26:00''))"
    unfolding data by (auto intro!: fmpred_upd simp: int_repr_ok_small)
  show ?thesis
    using h1 h2 h3 save_then_load [OF h1 h2 h3]
    by (simp add: cfg recs json_of_record_def fmmap_fmupd)
qed

text \<open>
  C7: when the primary file exists and does not parse, and the backup file can be read and
  holds a snapshot (text that parses, to something other than \<^verbatim>\<open>null\<close>),
  \<^verbatim>\<open>load_timer_data\<close> returns the backup's content, which is not the absent result.
\<close>

theorem load_corrupt_primary_uses_backup:
  assumes "fmlookup (files fs) (filename self) = Some Garbage"
      and "fmlookup (files fs) (backup_filename self) = Some (Doc snapshot)"
      and "backup_filename self \<notin> unreadable fs"
      and "snapshot \<noteq> JNull"
  shows "load_timer_data self fs = snapshot \<and> load_timer_data self fs \<noteq> JNull"
proof -
  have "\<exists>e. load_timer_data_try self fs = Inl e"
    using assms(1)
    by (simp add: load_timer_data_try_def path_exists_def fmdomI open_read_def json_load_def)
  moreover have "load_from_backup self fs = snapshot"
    using assms(2,3)
    by (simp add: load_from_backup_def path_exists_def fmdomI open_read_def json_load_def)
  ultimately have "load_timer_data self fs = snapshot"
    by (auto simp: load_timer_data_def)
  with assms(4) show ?thesis by simp
qed

theorem load_corrupt_primary_uses_backup_witness:
  "fmlookup (files \<lparr>files = fmap_of_list
                      [(''pomodoro_data.json'', Garbage),
                       (''pomodoro_data.json.bak'', Doc (JObj (fmap_of_list
                          [(''timer_config'', JObj fmempty),
                           (''sessions_completed'', JInt 2),
                           (''completed_sessions'', JList [])])))],
                    unreadable = {}, unwritable = {}\<rparr>)
      (filename (DataManager_init ''pomodoro_data.json'')) = Some Garbage
   \<and> fmlookup (files \<lparr>files = fmap_of_list
                      [(''pomodoro_data.json'', Garbage),
                       (''pomodoro_data.json.bak'', Doc (JObj (fmap_of_list
                          [(''timer_config'', JObj fmempty),
                           (''sessions_completed'', JInt 2),
                           (''completed_sessions'', JList [])])))],
                    unreadable = {}, unwritable = {}\<rparr>)
      (backup_filename (DataManager_init ''pomodoro_data.json''))
      = Some (Doc (JObj (fmap_of_list
                          [(''timer_config'', JObj fmempty),
                           (''sessions_completed'', JInt 2),
                           (''completed_sessions'', JList [])])))
   \<and> backup_filename (DataManager_init ''pomodoro_data.json'') \<notin> {}
   \<and> JObj (fmap_of_list
                          [(''timer_config'', JObj fmempty),
                           (''sessions_completed'', JInt 2),
                           (''completed_sessions'', JList [])]) \<noteq> JNull
   \<and> load_timer_data (DataManager_init ''pomodoro_data.json'')
        \<lparr>files = fmap_of_list
                      [(''pomodoro_data.json'', Garbage),
                       (''pomodoro_data.json.bak'', Doc (JObj (fmap_of_list
                          [(''timer_config'', JObj fmempty),
                           (''sessions_completed'', JInt 2),
                           (''completed_sessions'', JList [])])))],
                    unreadable = {}, unwritable = {}\<rparr>
      = JObj (fmap_of_list
                          [(''timer_config'', JObj fmempty),
                           (''sessions_completed'', JInt 2),
                           (''completed_sessions'', JList [])])"
  using load_corrupt_primary_uses_backup
          [of "\<lparr>files = fmap_of_list
                      [(''pomodoro_data.json'', Garbage),
                       (''pomodoro_data.json.bak'', Doc (JObj (fmap_of_list
                          [(''timer_config'', JObj fmempty),
                           (''sessions_completed'', JInt 2),
                           (''completed_sessions'', JList [])])))],
                    unreadable = {}, unwritable = {}\<rparr>"
              "DataManager_init ''pomodoro_data.json''"
              "JObj (fmap_of_list
                          [(''timer_config'', JObj fmempty),
                           (''sessions_completed'', JInt 2),
                           (''completed_sessions'', JList [])])"]
  by (simp add: DataManager_init_def)

text \<open>
  C2, as stated, fails: the primary file below parses to a dictionary without
  \<^verbatim>\<open>completed_sessions\<close>, the backup file holds a complete snapshot that
  \<^verbatim>\<open>_load_from_backup\<close> would return, and \<^verbatim>\<open>load_timer_data\<close> returns \<^verbatim>\<open>None\<close>.
\<close>

theorem load_missing_key_ignores_backup:
  "load_timer_data (DataManager_init ''pomodoro_data.json'')
     \<lparr>files = fmap_of_list
        [(''pomodoro_data.json'',
            Doc (JObj (fmap_of_list
              [(''timer_config'', JObj (fmap_of_list [(''work_duration'', JInt 25)])),
               (''sessions_completed'', JInt 3)]))),
         (''pomodoro_data.json.bak'',
            Doc (JObj (fmap_of_list
              [(''timer_config'', JObj (fmap_of_list [(''work_duration'', JInt 25)])),
               (''sessions_completed'', JInt 2),
               (''completed_sessions'', JList [])])))],
      unreadable = {}, unwritable = {}\<rparr> = JNull
   \<and> load_from_backup (DataManager_init ''pomodoro_data.json'')
     \<lparr>files = fmap_of_list
        [(''pomodoro_data.json'',
            Doc (JObj (fmap_of_list
              [(''timer_config'', JObj (fmap_of_list [(''work_duration'', JInt 25)])),
               (''sessions_completed'', JInt 3)]))),
         (''pomodoro_data.json.bak'',
            Doc (JObj (fmap_of_list
              [(''timer_config'', JObj (fmap_of_list [(''work_duration'', JInt 25)])),
               (''sessions_completed'', JInt 2),
               (''completed_sessions'', JList [])])))],
      unreadable = {}, unwritable = {}\<rparr>
     = JObj (fmap_of_list
              [(''timer_config'', JObj (fmap_of_list [(''work_duration'', JInt 25)])),
               (''sessions_completed'', JInt 2),
               (''completed_sessions'', JList [])])"
  by (simp add: load_timer_data_def load_timer_data_try_def load_from_backup_def
                DataManager_init_def path_exists_def open_read_def json_load_def
                required_keys_def py_contains_def)

text \<open>
  C2, amended: when the primary file exists, can be read and parses to a dictionary that
  lacks at least one of \<^verbatim>\<open>timer_config\<close>, \<^verbatim>\<open>sessions_completed\<close>,
  \<^verbatim>\<open>completed_sessions\<close>, \<^verbatim>\<open>load_timer_data\<close> returns \<^verbatim>\<open>None\<close>, the absent result,
  whatever the backup location holds; the call does not raise.
\<close>

theorem load_missing_key_returns_none:
  assumes "fmlookup (files fs) (filename self) = Some (Doc (JObj d))"
      and "filename self \<notin> unreadable fs"
      and "\<not> (''timer_config'' |\<in>| fmdom d \<and> ''sessions_completed'' |\<in>| fmdom d
             \<and> ''completed_sessions'' |\<in>| fmdom d)"
  shows "load_timer_data self fs = JNull"
proof -
  have "load_timer_data_try self fs = Inr JNull"
    using assms(1,2) check_required_keys_missing [OF assms(3)]
    by (simp add: load_timer_data_try_def path_exists_def fmdomI open_read_def json_load_def)
  then show ?thesis by (simp add: load_timer_data_def)
qed

theorem load_missing_key_returns_none_witness:
  "fmlookup (files \<lparr>files = fmap_of_list
                      [(''pomodoro_data.json'', Doc (JObj (fmap_of_list
                          [(''timer_config'', JObj fmempty),
                           (''completed_sessions'', JList [])]))),
                       (''pomodoro_data.json.bak'', Doc (JObj (fmap_of_list
                          [(''timer_config'', JObj fmempty),
                           (''sessions_completed'', JInt 2),
                           (''completed_sessions'', JList [])])))],
                    unreadable = {}, unwritable = {}\<rparr>)
      (filename (DataManager_init ''pomodoro_data.json''))
      = Some (Doc (JObj (fmap_of_list
                          [(''timer_config'', JObj fmempty),
                           (''completed_sessions'', JList [])])))
   \<and> filename (DataManager_init ''pomodoro_data.json'') \<notin> {}
   \<and> \<not> (''timer_config'' |\<in>| fmdom (fmap_of_list
                          [(''timer_config'', JObj fmempty),
                           (''completed_sessions'', JList [])])
        \<and> ''sessions_completed'' |\<in>| fmdom (fmap_of_list
                          [(''timer_config'', JObj fmempty),
                           (''completed_sessions'', JList [])])
        \<and> ''completed_sessions'' |\<in>| fmdom (fmap_of_list
                          [(''timer_config'', JObj fmempty),
                           (''completed_sessions'', JList [])]))
   \<and> load_timer_data (DataManager_init ''pomodoro_data.json'')
        \<lparr>files = fmap_of_list
                      [(''pomodoro_data.json'', Doc (JObj (fmap_of_list
                          [(''timer_config'', JObj fmempty),
                           (''completed_sessions'', JList [])]))),
                       (''pomodoro_data.json.bak'', Doc (JObj (fmap_of_list
                          [(''timer_config'', JObj fmempty),
                           (''sessions_completed'', JInt 2),
                           (''completed_sessions'', JList [])])))],
                    unreadable = {}, unwritable = {}\<rparr> = JNull"
  using load_missing_key_returns_none
          [of "\<lparr>files = fmap_of_list
                      [(''pomodoro_data.json'', Doc (JObj (fmap_of_list
                          [(''timer_config'', JObj fmempty),
                           (''completed_sessions'', JList [])]))),
                       (''pomodoro_data.json.bak'', Doc (JObj (fmap_of_list
                          [(''timer_config'', JObj fmempty),
                           (''sessions_completed'', JInt 2),
                           (''completed_sessions'', JList [])])))],
                    unreadable = {}, unwritable = {}\<rparr>"
              "DataManager_init ''pomodoro_data.json''"
              "fmap_of_list
                          [(''timer_config'', JObj fmempty),
                           (''completed_sessions'', JList [])]"]
  by (simp add: DataManager_init_def)

end
